theory Spec2Isabelle
  imports Complex_Main
begin

section \<open>JavaScript numbers\<close>

text \<open>
  The component \<^verbatim>\<open>src/components/VideoDownloader.tsx\<close> computes with JavaScript numbers.
  A number is modelled as a finite value or one of the three special values that the
  component can produce and store (\<^verbatim>\<open>NaN\<close>, \<^verbatim>\<open>Infinity\<close>, \<^verbatim>\<open>-Infinity\<close>).

  Two abstractions are made:
  \<^item> finite values are exact reals. The code rounds the result of each \<^verbatim>\<open>/\<close>, \<^verbatim>\<open>*\<close> and
    \<^verbatim>\<open>-\<close> to the nearest binary64 value, and the model does not: \<^verbatim>\<open>(29 / 100) * 100\<close> is
    \<^verbatim>\<open>28.999999999999996\<close> in the code and 29 in the model. The special values, and which
    operands give them (a zero divisor, \<^verbatim>\<open>NaN\<close>, an infinity), are as in the code. The
    theorems below rest on a finite quotient or product only where the rounding cannot
    change the result stated; each says why;
  \<^item> there is one zero, read as \<^verbatim>\<open>+0\<close> when it is a divisor. Every divisor of the component
    is a byte count, a quotient of byte counts or a literal, so \<^verbatim>\<open>-0\<close> never divides.
\<close>

datatype jsnum = Fin real | PInf | NInf | NaN

text \<open>The operator \<^verbatim>\<open>x / y\<close>.\<close>

fun js_div :: "jsnum \<Rightarrow> jsnum \<Rightarrow> jsnum" where
  "js_div NaN y = NaN"
| "js_div x NaN = NaN"
| "js_div (Fin a) (Fin b) =
     (if b \<noteq> 0 then Fin (a / b) else if 0 < a then PInf else if a < 0 then NInf else NaN)"
| "js_div (Fin a) y = Fin 0"
| "js_div PInf (Fin b) = (if b < 0 then NInf else PInf)"
| "js_div NInf (Fin b) = (if b < 0 then PInf else NInf)"
| "js_div x y = NaN"

text \<open>The operator \<^verbatim>\<open>x * y\<close>.\<close>

fun js_mul :: "jsnum \<Rightarrow> jsnum \<Rightarrow> jsnum" where
  "js_mul NaN y = NaN"
| "js_mul x NaN = NaN"
| "js_mul (Fin a) (Fin b) = Fin (a * b)"
| "js_mul (Fin a) PInf = (if 0 < a then PInf else if a < 0 then NInf else NaN)"
| "js_mul (Fin a) NInf = (if 0 < a then NInf else if a < 0 then PInf else NaN)"
| "js_mul PInf (Fin b) = (if 0 < b then PInf else if b < 0 then NInf else NaN)"
| "js_mul NInf (Fin b) = (if 0 < b then NInf else if b < 0 then PInf else NaN)"
| "js_mul PInf PInf = PInf"
| "js_mul NInf NInf = PInf"
| "js_mul x y = NInf"

text \<open>The operator \<^verbatim>\<open>x - y\<close>.\<close>

fun js_sub :: "jsnum \<Rightarrow> jsnum \<Rightarrow> jsnum" where
  "js_sub NaN y = NaN"
| "js_sub x NaN = NaN"
| "js_sub (Fin a) (Fin b) = Fin (a - b)"
| "js_sub (Fin a) PInf = NInf"
| "js_sub (Fin a) NInf = PInf"
| "js_sub PInf PInf = NaN"
| "js_sub NInf NInf = NaN"
| "js_sub PInf y = PInf"
| "js_sub NInf y = NInf"

text \<open>
  The operator \<^verbatim>\<open>x % y\<close>: the remainder of the division truncated towards zero, so that
  the result has the sign of the dividend.
\<close>

definition trunc :: "real \<Rightarrow> int" where
  "trunc x = (if 0 \<le> x then \<lfloor>x\<rfloor> else - \<lfloor>- x\<rfloor>)"

fun js_rem :: "jsnum \<Rightarrow> jsnum \<Rightarrow> jsnum" where
  "js_rem (Fin a) (Fin b) = (if b = 0 then NaN else Fin (a - b * of_int (trunc (a / b))))"
| "js_rem (Fin a) PInf = Fin a"
| "js_rem (Fin a) NInf = Fin a"
| "js_rem x y = NaN"

text \<open>\<^verbatim>\<open>Math.floor(x)\<close> and \<^verbatim>\<open>Math.max(x, y)\<close>.\<close>

fun Math_floor :: "jsnum \<Rightarrow> jsnum" where
  "Math_floor (Fin a) = Fin (of_int \<lfloor>a\<rfloor>)"
| "Math_floor x = x"

fun Math_max :: "jsnum \<Rightarrow> jsnum \<Rightarrow> jsnum" where
  "Math_max NaN y = NaN"
| "Math_max x NaN = NaN"
| "Math_max PInf y = PInf"
| "Math_max x PInf = PInf"
| "Math_max NInf y = y"
| "Math_max x NInf = x"
| "Math_max (Fin a) (Fin b) = Fin (max a b)"

subsection \<open>Numbers in template literals\<close>

text \<open>
  A template literal \<^verbatim>\<open>`${x}`\<close> prints a number with \<^verbatim>\<open>Number::toString\<close>, which gives the
  shortest digits that read back as the same binary64 value. The special values print as
  their names. A whole number of magnitude below \<open>2\<^sup>5\<^sup>3\<close> prints as its decimal numeral, with
  a leading minus sign when negative: below that bound every whole number is a binary64
  value of its own, and no shorter numeral reads back as it. For every other finite value
  (a fraction, or a magnitude of \<open>2\<^sup>5\<^sup>3\<close> and more, where the digits printed are not those of
  the exact value) the digits are chosen from the binary64 representation, which the model
  does not have: their printing is the parameter \<open>other\<close>.
\<close>

fun digits :: "nat \<Rightarrow> string" where
  "digits n =
     (if n < 10 then [''0123456789'' ! n]
      else digits (n div 10) @ [''0123456789'' ! (n mod 10)])"

declare digits.simps [simp del]

definition decimal :: "int \<Rightarrow> string" where
  "decimal i = (if i < 0 then ''-'' @ digits (nat (- i)) else digits (nat i))"

fun js_toString :: "(real \<Rightarrow> string) \<Rightarrow> jsnum \<Rightarrow> string" where
  "js_toString other (Fin a) =
     (if of_int \<lfloor>a\<rfloor> = a \<and> \<bar>a\<bar> < 2 ^ 53 then decimal \<lfloor>a\<rfloor> else other a)"
| "js_toString other PInf = ''Infinity''"
| "js_toString other NInf = ''-Infinity''"
| "js_toString other NaN = ''NaN''"

section \<open>The duration helper\<close>

text \<open>
  \<^verbatim>\<open>formatTime\<close> (lines 133 to 137):
  \<^verbatim>\<open>
    const minutes = Math.floor(seconds / 60);
    const secs = Math.floor(seconds % 60);
    return `${minutes}m ${secs}s`;
  \<close>
\<close>

definition formatTime :: "(real \<Rightarrow> string) \<Rightarrow> jsnum \<Rightarrow> string" where
  "formatTime other seconds =
     (let minutes = Math_floor (js_div seconds (Fin 60));
          secs = Math_floor (js_rem seconds (Fin 60))
      in js_toString other minutes @ ''m '' @ js_toString other secs @ ''s'')"

section \<open>The component's state and its environment\<close>

text \<open>
  A response body and the stored metadata are JSON objects. The component reads two of
  their fields, \<^verbatim>\<open>error\<close> and \<^verbatim>\<open>title\<close>, which the service sends as strings; an
  object is a list of fields with string values, and a field that is not there reads as
  \<^verbatim>\<open>undefined\<close> (\<open>None\<close>). A value is truthy when it is a string that is not empty.
\<close>

type_synonym json_obj = "(string \<times> string) list"

definition field :: "json_obj \<Rightarrow> string \<Rightarrow> string option" where
  "field obj k = map_of obj k"

definition truthy :: "string option \<Rightarrow> bool" where
  "truthy v = (case v of None \<Rightarrow> False | Some str \<Rightarrow> str \<noteq> [])"

text \<open>A value inside string concatenation or as an attribute: \<^verbatim>\<open>undefined\<close> prints its name.\<close>

definition js_string :: "string option \<Rightarrow> string" where
  "js_string v = (case v of None \<Rightarrow> ''undefined'' | Some str \<Rightarrow> str)"

text \<open>
  What the component does to the world outside its state, in the order it does it: the
  requests it posts, the toasts it shows, and the file it hands to the browser (the link
  with its \<^verbatim>\<open>download\<close> attribute, clicked, for a blob of the given size).
\<close>

datatype request =
    VideoInfoRequest string
  | DownloadRequest string "string option"

datatype effect =
    Post request
  | ToastError string
  | ToastSuccess string
  | SaveFile string nat

text \<open>The six \<^verbatim>\<open>useState\<close> cells (lines 8 to 13), and the effects so far.\<close>

record vd_state =
  url :: string
  error :: string
  loading :: bool
  videoInfo :: "json_obj option"
  progress :: jsnum
  estimatedTime :: "string option"
  effects :: "effect list"

definition initial_state :: vd_state where
  "initial_state =
     \<lparr>url = [], error = [], loading = False, videoInfo = None, progress = Fin 0,
      estimatedTime = None, effects = []\<rparr>"

text \<open>
  An awaited request ends in a rejection, caught with its \<^verbatim>\<open>err.message\<close>, or in a
  response. Of the download's response the component reads the
  \<^verbatim>\<open>content-disposition\<close> header and the blob's size.
\<close>

datatype 'a outcome = Rejected string | Resolved 'a

record download_response =
  content_disposition :: "string option"
  data_size :: nat

text \<open>
  A progress event, as the callback reads it: \<^verbatim>\<open>loaded\<close>, \<^verbatim>\<open>total\<close> (which may be
  undefined) and \<^verbatim>\<open>startTime\<close> (in milliseconds, which may be undefined). The callback
  reads the clock twice, \<^verbatim>\<open>new Date().getTime()\<close>: the pair holds the two values in the
  order of evaluation.
\<close>

record progress_event =
  loaded :: nat
  total :: "nat option"
  startTime :: "int option"

type_synonym clock = "int \<times> int"

section \<open>The metadata fetch\<close>

text \<open>
  \<^verbatim>\<open>fetchVideoInfo\<close> (lines 21 to 44) runs up to its \<^verbatim>\<open>await\<close>, and continues when the
  request has settled. The two halves are separate functions of the state at that moment,
  so that other handlers can run in between. The continuation is not told which url the
  request was posted for: the source keeps no such tag.
\<close>

definition fetchVideoInfo_begin :: "string \<Rightarrow> vd_state \<Rightarrow> vd_state" where
  "fetchVideoInfo_begin u s =
     s\<lparr>loading := True, error := [], effects := effects s @ [Post (VideoInfoRequest u)]\<rparr>"

text \<open>The \<^verbatim>\<open>catch\<close> block (lines 38 to 41).\<close>

definition fetchVideoInfo_catch :: "string \<Rightarrow> vd_state \<Rightarrow> vd_state" where
  "fetchVideoInfo_catch message s =
     s\<lparr>error := ''Error fetching video info: '' @ message,
       effects := effects s @ [ToastError (''Invalid URL: '' @ message)]\<rparr>"

definition fetchVideoInfo_settle :: "json_obj outcome \<Rightarrow> vd_state \<Rightarrow> vd_state" where
  "fetchVideoInfo_settle outcome s =
     (let s' =
        (case outcome of
           Rejected message \<Rightarrow> fetchVideoInfo_catch message s
         | Resolved data \<Rightarrow>
             if truthy (field data ''error'')
             then fetchVideoInfo_catch (js_string (field data ''error'')) s
             else s\<lparr>videoInfo := Some data\<rparr>)
      in s'\<lparr>loading := False\<rparr>)"

definition fetchVideoInfo :: "string \<Rightarrow> json_obj outcome \<Rightarrow> vd_state \<Rightarrow> vd_state" where
  "fetchVideoInfo u outcome s = fetchVideoInfo_settle outcome (fetchVideoInfo_begin u s)"

text \<open>
  The url field (line 148) and the effect on it (lines 15 to 19): when the url has
  changed and is not empty, a fetch begins.
\<close>

definition onChange :: "string \<Rightarrow> vd_state \<Rightarrow> vd_state" where
  "onChange u s =
     (if u = url s then s
      else if u \<noteq> [] then fetchVideoInfo_begin u (s\<lparr>url := u\<rparr>)
      else s\<lparr>url := u\<rparr>)"

section \<open>The download\<close>

text \<open>
  The progress callback (lines 68 to 82). The percent is computed and stored first; the
  estimate is computed and stored only under \<^verbatim>\<open>total > 0\<close>.
\<close>

definition num :: "nat \<Rightarrow> jsnum" where
  "num n = Fin (of_nat n)"

text \<open>Line 77: \<^verbatim>\<open>progressEvent.startTime || new Date().getTime()\<close>; a start time of 0 is falsy.\<close>

definition start_or_now :: "clock \<Rightarrow> progress_event \<Rightarrow> int" where
  "start_or_now clk progressEvent =
     (case startTime progressEvent of
        None \<Rightarrow> snd clk
      | Some t \<Rightarrow> if t = 0 then snd clk else t)"

text \<open>Line 77, the elapsed time in seconds.\<close>

definition elapsedTime :: "clock \<Rightarrow> progress_event \<Rightarrow> jsnum" where
  "elapsedTime clk progressEvent =
     js_div (Fin (of_int (fst clk - start_or_now clk progressEvent))) (Fin 1000)"

text \<open>Lines 78 and 79.\<close>

definition remainingTime :: "jsnum \<Rightarrow> nat \<Rightarrow> nat \<Rightarrow> jsnum" where
  "remainingTime elapsed current tot =
     (let totalTime = js_div elapsed (js_div (num current) (num tot))
      in Math_max (js_sub totalTime elapsed) (Fin 0))"

definition onDownloadProgress ::
    "(real \<Rightarrow> string) \<Rightarrow> clock \<Rightarrow> progress_event \<Rightarrow> vd_state \<Rightarrow> vd_state" where
  "onDownloadProgress other clk progressEvent s =
     (let tot = (case total progressEvent of None \<Rightarrow> 0 | Some t \<Rightarrow> t);
          current = loaded progressEvent;
          percent = Math_floor (js_mul (js_div (num current) (num tot)) (Fin 100));
          s1 = s\<lparr>progress := percent\<rparr>
      in if 0 < tot then
           s1\<lparr>estimatedTime :=
                Some (formatTime other
                        (remainingTime (elapsedTime clk progressEvent) current tot))\<rparr>
         else s1)"

text \<open>
  \<^verbatim>\<open>contentDisposition.split('filename=')[1]\<close> (line 87): the pieces of a string between
  the occurrences of a separator, and the piece at an index, \<^verbatim>\<open>undefined\<close> when there is
  none.
\<close>

fun split_from :: "string \<Rightarrow> string \<Rightarrow> string \<Rightarrow> string list" where
  "split_from sep piece [] = [piece]"
| "split_from sep piece (c # cs) =
     (if sep \<noteq> [] \<and> take (length sep) (c # cs) = sep
      then piece # split_from sep [] (drop (length sep - 1) cs)
      else split_from sep (piece @ [c]) cs)"

definition js_split :: "string \<Rightarrow> string \<Rightarrow> string list" where
  "js_split sep str = split_from sep [] str"

definition item :: "'a list \<Rightarrow> nat \<Rightarrow> 'a option" where
  "item xs i = (if i < length xs then Some (xs ! i) else None)"

text \<open>
  \<^verbatim>\<open>handleDownload\<close> (lines 46 to 114). \<^verbatim>\<open>videoInfo?.title\<close> is the title of the
  metadata, undefined when there is no metadata.
\<close>

definition videoInfo_title :: "vd_state \<Rightarrow> string option" where
  "videoInfo_title s = (case videoInfo s of None \<Rightarrow> None | Some info \<Rightarrow> field info ''title'')"

text \<open>The guard of line 47, \<^verbatim>\<open>!url || !videoInfo?.title\<close>.\<close>

definition invalid :: "vd_state \<Rightarrow> bool" where
  "invalid s = (url s = [] \<or> \<not> truthy (videoInfo_title s))"

text \<open>Lines 48 to 50.\<close>

definition reject_download :: "vd_state \<Rightarrow> vd_state" where
  "reject_download s =
     s\<lparr>error := ''URL and video title are required'',
       effects := effects s @ [ToastError ''URL and video title are required'']\<rparr>"

text \<open>Lines 53 to 57.\<close>

definition reset_for_download :: "vd_state \<Rightarrow> vd_state" where
  "reset_for_download s =
     s\<lparr>loading := True, error := [], progress := Fin 0, estimatedTime := None,
       videoInfo := None\<rparr>"

text \<open>Line 60: the request is posted, with the url and the title of the handler's closure.\<close>

definition post_download :: "string \<Rightarrow> string option \<Rightarrow> vd_state \<Rightarrow> vd_state" where
  "post_download u title s = s\<lparr>effects := effects s @ [Post (DownloadRequest u title)]\<rparr>"

definition handleDownload_begin :: "vd_state \<Rightarrow> vd_state" where
  "handleDownload_begin s =
     (if invalid s then reject_download s
      else post_download (url s) (videoInfo_title s) (reset_for_download s))"

text \<open>The \<^verbatim>\<open>catch\<close> block (lines 108 to 111).\<close>

definition handleDownload_catch :: "string \<Rightarrow> vd_state \<Rightarrow> vd_state" where
  "handleDownload_catch message s =
     s\<lparr>error := ''Error downloading video: '' @ message,
       effects := effects s @ [ToastError (''Error downloading video: '' @ message)]\<rparr>"

text \<open>
  The continuation after the \<^verbatim>\<open>await\<close> (lines 86 to 113). It runs on the state of that
  moment, with the \<^verbatim>\<open>url\<close> and the \<^verbatim>\<open>videoInfo\<close> of the handler's closure: the values
  of the render in which the button was clicked, which \<^verbatim>\<open>setVideoInfo(null)\<close> does not
  change. It is reached only past the guard, so the closure's \<^verbatim>\<open>videoInfo\<close> is an object,
  and the closure is given by the url and that object's title. The metadata fetch of line
  103 is begun and not awaited.
\<close>

definition handleDownload_settle ::
    "string \<Rightarrow> string option \<Rightarrow> download_response outcome \<Rightarrow> vd_state \<Rightarrow> vd_state" where
  "handleDownload_settle u title outcome s =
     (let s' =
        (case outcome of
           Rejected message \<Rightarrow> handleDownload_catch message s
         | Resolved response \<Rightarrow>
             (let contentDisposition = content_disposition response;
                  filename =
                    (if truthy contentDisposition
                     then item (js_split ''filename='' (js_string contentDisposition)) 1
                     else Some (js_string title @ ''.mp4''))
              in if data_size response = 0
                 then handleDownload_catch ''Received empty file'' s
                 else (let s2 = s\<lparr>effects := effects s @
                                  [SaveFile (js_string filename) (data_size response)]\<rparr>;
                           s3 = fetchVideoInfo_begin u s2
                       in s3\<lparr>effects := effects s3 @
                                  [ToastSuccess ''Download completed successfully!'']\<rparr>)))
      in s'\<lparr>loading := False\<rparr>)"

text \<open>
  One whole run of the handler with nothing else in between: the progress events that
  the request delivers, each with its clock readings, and then its outcome.
\<close>

record download_run =
  number_text :: "real \<Rightarrow> string"
  progress_events :: "(clock \<times> progress_event) list"
  download_outcome :: "download_response outcome"

definition streaming :: "(real \<Rightarrow> string) \<Rightarrow> (clock \<times> progress_event) list \<Rightarrow> vd_state \<Rightarrow> vd_state" where
  "streaming other evs s = foldl (\<lambda>t (clk, ev). onDownloadProgress other clk ev t) s evs"

definition handleDownload :: "download_run \<Rightarrow> vd_state \<Rightarrow> vd_state" where
  "handleDownload run s =
     (if invalid s then handleDownload_begin s
      else handleDownload_settle (url s) (videoInfo_title s) (download_outcome run)
             (streaming (number_text run) (progress_events run) (handleDownload_begin s)))"

text \<open>
  The button (lines 166 to 168) is \<^verbatim>\<open>disabled={loading}\<close>: a click reaches the handler
  only while nothing is loading.
\<close>

definition onClick_download :: "download_run \<Rightarrow> vd_state \<Rightarrow> vd_state" where
  "onClick_download run s = (if loading s then s else handleDownload run s)"

section \<open>Clear\<close>

text \<open>\<^verbatim>\<open>handleClear\<close> (lines 125 to 131).\<close>

definition handleClear :: "vd_state \<Rightarrow> vd_state" where
  "handleClear s =
     s\<lparr>url := [], videoInfo := None, error := [], progress := Fin 0, estimatedTime := None\<rparr>"

section \<open>Example inputs\<close>

text \<open>
  Concrete inputs for the instances below: a printing for the numbers outside the decimal
  fragment, a state with metadata titled \<^verbatim>\<open>MyClip\<close>, and three runs of the download (a
  file of a million bytes in four chunks with no \<^verbatim>\<open>content-disposition\<close> header, an
  empty file, a rejected request).
\<close>

definition plain :: "real \<Rightarrow> string" where
  "plain a = []"

definition MyClip_state :: vd_state where
  "MyClip_state =
     initial_state\<lparr>url := ''https://example.org/v'',
                   videoInfo := Some [(''title'', ''MyClip''), (''thumbnail'', ''t.jpg'')]\<rparr>"

definition four_chunks :: "(clock \<times> progress_event) list" where
  "four_chunks =
     [((1000, 1000), \<lparr>loaded = 250000, total = Some 1000000, startTime = None\<rparr>),
      ((2000, 2000), \<lparr>loaded = 500000, total = Some 1000000, startTime = None\<rparr>),
      ((3000, 3000), \<lparr>loaded = 750000, total = Some 1000000, startTime = None\<rparr>),
      ((4000, 4000), \<lparr>loaded = 1000000, total = Some 1000000, startTime = None\<rparr>)]"

definition run_saved :: download_run where
  "run_saved =
     \<lparr>number_text = plain, progress_events = four_chunks,
      download_outcome = Resolved \<lparr>content_disposition = None, data_size = 1000000\<rparr>\<rparr>"

definition run_empty :: download_run where
  "run_empty =
     \<lparr>number_text = plain, progress_events = [],
      download_outcome = Resolved \<lparr>content_disposition = None, data_size = 0\<rparr>\<rparr>"

definition run_rejected :: download_run where
  "run_rejected =
     \<lparr>number_text = plain, progress_events = [], download_outcome = Rejected ''Network Error''\<rparr>"

text \<open>
  The url field was set to one address and then to another, and the response for the
  second has arrived, with the title \<^verbatim>\<open>B\<close>; the response for the first is still awaited.
\<close>

definition b_answered :: vd_state where
  "b_answered =
     fetchVideoInfo_settle (Resolved [(''title'', ''B'')])
       (onChange ''https://example.org/b'' (onChange ''https://example.org/a'' initial_state))"

section \<open>Arithmetic and printing\<close>







section \<open>The duration helper: what it prints\<close>




section \<open>What the progress events and the continuation leave alone\<close>

lemma onDownloadProgress_frame:
  "url (onDownloadProgress other clk ev s) = url s"
  "error (onDownloadProgress other clk ev s) = error s"
  "loading (onDownloadProgress other clk ev s) = loading s"
  "videoInfo (onDownloadProgress other clk ev s) = videoInfo s"
  "effects (onDownloadProgress other clk ev s) = effects s"
  by (simp_all add: onDownloadProgress_def Let_def)

lemma streaming_Cons:
  "streaming other ((clk, ev) # evs) s = streaming other evs (onDownloadProgress other clk ev s)"
  by (simp add: streaming_def)

lemma streaming_frame:
  "url (streaming other evs s) = url s \<and>
   error (streaming other evs s) = error s \<and>
   loading (streaming other evs s) = loading s \<and>
   videoInfo (streaming other evs s) = videoInfo s \<and>
   effects (streaming other evs s) = effects s"
proof (induction evs arbitrary: s)
  case Nil
  then show ?case by (simp add: streaming_def)
next
  case (Cons e evs)
  obtain clk ev where e: "e = (clk, ev)" by (cases e)
  show ?case
    unfolding e streaming_Cons
    using Cons.IH [of "onDownloadProgress other clk ev s"]
    by (simp add: onDownloadProgress_frame)
qed

lemma handleDownload_valid:
  assumes "\<not> invalid s"
  shows "handleDownload run s =
           handleDownload_settle (url s) (videoInfo_title s) (download_outcome run)
             (streaming (number_text run) (progress_events run)
                (post_download (url s) (videoInfo_title s) (reset_for_download s)))"
  using assms by (simp add: handleDownload_def handleDownload_begin_def)

lemma effects_while_streaming:
  "effects (streaming other evs (post_download u title (reset_for_download s))) =
     effects s @ [Post (DownloadRequest u title)]"
proof -
  have "effects (streaming other evs (post_download u title (reset_for_download s))) =
          effects (post_download u title (reset_for_download s))"
    using streaming_frame by blast
  then show ?thesis by (simp add: post_download_def reset_for_download_def)
qed

lemma settle_saved:
  assumes "outcome = Resolved response" "content_disposition response = None"
    "data_size response \<noteq> 0"
  shows "effects (handleDownload_settle u (Some title) outcome s) =
           effects s @ [SaveFile (title @ ''.mp4'') (data_size response),
                        Post (VideoInfoRequest u),
                        ToastSuccess ''Download completed successfully!'']"
  using assms
  by (simp add: handleDownload_settle_def Let_def truthy_def js_string_def
      fetchVideoInfo_begin_def)

lemma settle_rejected:
  "handleDownload_settle u title (Rejected message) s =
     s\<lparr>error := ''Error downloading video: '' @ message,
       effects := effects s @ [ToastError (''Error downloading video: '' @ message)],
       loading := False\<rparr>"
  by (simp add: handleDownload_settle_def handleDownload_catch_def)

lemma settle_empty:
  assumes "data_size response = 0"
  shows "handleDownload_settle u title (Resolved response) s =
     s\<lparr>error := ''Error downloading video: Received empty file'',
       effects := effects s @ [ToastError ''Error downloading video: Received empty file''],
       loading := False\<rparr>"
  using assms by (simp add: handleDownload_settle_def Let_def handleDownload_catch_def)

lemma settle_not_loading: "loading (handleDownload_settle u title outcome s) = False"
  by (simp add: handleDownload_settle_def Let_def)

lemma settle_new_effects:
  "\<exists>new. effects (handleDownload_settle u title outcome s) = effects s @ new \<and>
     (\<forall>name n. SaveFile name n \<in> set new \<longrightarrow> 0 < n)"
  by (cases outcome)
    (auto simp add: handleDownload_settle_def handleDownload_catch_def Let_def
      fetchVideoInfo_begin_def)

lemma MyClip_valid: "\<not> invalid MyClip_state"
  by (simp add: invalid_def MyClip_state_def initial_state_def videoInfo_title_def
      field_def truthy_def)

lemma MyClip_title: "videoInfo_title MyClip_state = Some ''MyClip''"
  by (simp add: MyClip_state_def initial_state_def videoInfo_title_def field_def)

lemma MyClip_url: "url MyClip_state = ''https://example.org/v''"
  by (simp add: MyClip_state_def initial_state_def)

lemma MyClip_effects: "effects MyClip_state = []"
  by (simp add: MyClip_state_def initial_state_def)

lemma saved_effects:
  assumes "\<not> invalid s" "videoInfo_title s = Some title"
    "download_outcome run = Resolved response"
    "content_disposition response = None" "data_size response \<noteq> 0"
  shows "effects (handleDownload run s) =
     effects s @ [Post (DownloadRequest (url s) (Some title)),
                  SaveFile (title @ ''.mp4'') (data_size response),
                  Post (VideoInfoRequest (url s)),
                  ToastSuccess ''Download completed successfully!'']"
  using assms
  by (simp add: handleDownload_valid settle_saved effects_while_streaming)

section \<open>The saved file\<close>

text \<open>
  C2. A download that passes the guard, whose response carries no
  \<^verbatim>\<open>content-disposition\<close> header and is not empty, hands the browser a file named by the
  title followed by \<^verbatim>\<open>.mp4\<close>: after the request, the effects are exactly the save under
  that name, the metadata request and the success toast, and no error is stored. The
  title is the one of the handler's closure, which \<^verbatim>\<open>setVideoInfo(null)\<close> does not reach.
  (An empty response is the subject of C6.)
\<close>

theorem C2_filename_fallback:
  assumes "\<not> invalid s" "videoInfo_title s = Some title"
    "download_outcome run = Resolved response"
    "content_disposition response = None" "data_size response \<noteq> 0"
  shows "effects (handleDownload run s) =
     effects s @ [Post (DownloadRequest (url s) (Some title)),
                  SaveFile (title @ ''.mp4'') (data_size response),
                  Post (VideoInfoRequest (url s)),
                  ToastSuccess ''Download completed successfully!''] \<and>
     error (handleDownload run s) = []"
proof -
  have "error (handleDownload run s) = []"
    using assms(1,3,5) streaming_frame [of "number_text run" "progress_events run"
        "post_download (url s) (videoInfo_title s) (reset_for_download s)"]
    by (simp add: handleDownload_valid handleDownload_settle_def Let_def
        fetchVideoInfo_begin_def post_download_def reset_for_download_def)
  then show ?thesis using saved_effects [OF assms] by simp
qed

text \<open>The instance of the specification: the title \<^verbatim>\<open>MyClip\<close> gives \<^verbatim>\<open>MyClip.mp4\<close>.\<close>

theorem C2_MyClip_saved_as_MyClip_mp4:
  "\<not> invalid MyClip_state \<and> videoInfo_title MyClip_state = Some ''MyClip'' \<and>
   download_outcome run_saved = Resolved \<lparr>content_disposition = None, data_size = 1000000\<rparr> \<and>
   content_disposition \<lparr>content_disposition = None, data_size = 1000000\<rparr> = None \<and>
   data_size \<lparr>content_disposition = None, data_size = 1000000\<rparr> \<noteq> 0 \<and>
   effects (handleDownload run_saved MyClip_state) =
     [Post (DownloadRequest ''https://example.org/v'' (Some ''MyClip'')),
      SaveFile ''MyClip.mp4'' 1000000,
      Post (VideoInfoRequest ''https://example.org/v''),
      ToastSuccess ''Download completed successfully!''] \<and>
   error (handleDownload run_saved MyClip_state) = []"
proof -
  let ?r = "\<lparr>content_disposition = None, data_size = 1000000\<rparr>"
  have o: "download_outcome run_saved = Resolved ?r" by (simp add: run_saved_def)
  have h: "content_disposition ?r = None" and d: "data_size ?r \<noteq> 0" by simp_all
  show ?thesis
    using C2_filename_fallback [OF MyClip_valid MyClip_title o h d]
      MyClip_valid MyClip_title o
    by (simp add: MyClip_url MyClip_effects)
qed

text \<open>
  With a \<^verbatim>\<open>content-disposition\<close> header the name is what follows \<^verbatim>\<open>filename=\<close> in it, and
  \<^verbatim>\<open>undefined\<close> when the header has no such part.
\<close>

lemma filename_from_header:
  "item (js_split ''filename='' ''attachment; filename=clip.mp4'') 1 = Some ''clip.mp4'' \<and>
   item (js_split ''filename='' ''inline'') 1 = None"
  by (simp add: js_split_def item_def)

section \<open>Validation\<close>

text \<open>
  C5. When the url is empty, or the title is absent or empty, the handler does nothing but
  store the validation message in the error state and push it as an error toast: the
  state is otherwise the one it was called in, and no request has been posted. A request
  that is posted and rejected is reported through the same two channels, the error state
  and an error toast with the same text.
\<close>

theorem C5_validation_fails_fast:
  "(url s = [] \<or> videoInfo_title s = None \<or> videoInfo_title s = Some [] \<longrightarrow>
      handleDownload run s =
        s\<lparr>error := ''URL and video title are required'',
          effects := effects s @ [ToastError ''URL and video title are required'']\<rparr>) \<and>
   (\<not> invalid s \<and> download_outcome run = Rejected message \<longrightarrow>
      error (handleDownload run s) = ''Error downloading video: '' @ message \<and>
      effects (handleDownload run s) =
        effects s @ [Post (DownloadRequest (url s) (videoInfo_title s)),
                     ToastError (''Error downloading video: '' @ message)])"
proof (intro conjI impI)
  assume "url s = [] \<or> videoInfo_title s = None \<or> videoInfo_title s = Some []"
  then have "invalid s" by (auto simp add: invalid_def truthy_def)
  then show "handleDownload run s =
        s\<lparr>error := ''URL and video title are required'',
          effects := effects s @ [ToastError ''URL and video title are required'']\<rparr>"
    by (simp add: handleDownload_def handleDownload_begin_def reject_download_def)
next
  assume a: "\<not> invalid s \<and> download_outcome run = Rejected message"
  then show "error (handleDownload run s) = ''Error downloading video: '' @ message"
    by (simp add: handleDownload_valid settle_rejected)
  from a show "effects (handleDownload run s) =
        effects s @ [Post (DownloadRequest (url s) (videoInfo_title s)),
                     ToastError (''Error downloading video: '' @ message)]"
    by (simp add: handleDownload_valid settle_rejected effects_while_streaming)
qed

theorem C5_empty_url_and_rejected_request:
  "url initial_state = [] \<and>
   handleDownload run_saved initial_state =
     initial_state\<lparr>error := ''URL and video title are required'',
       effects := effects initial_state @ [ToastError ''URL and video title are required'']\<rparr> \<and>
   \<not> invalid MyClip_state \<and> download_outcome run_rejected = Rejected ''Network Error'' \<and>
   error (handleDownload run_rejected MyClip_state) = ''Error downloading video: Network Error'' \<and>
   effects (handleDownload run_rejected MyClip_state) =
     [Post (DownloadRequest ''https://example.org/v'' (Some ''MyClip'')),
      ToastError ''Error downloading video: Network Error'']"
proof -
  have u: "url initial_state = []" by (simp add: initial_state_def)
  have r: "download_outcome run_rejected = Rejected ''Network Error''"
    by (simp add: run_rejected_def)
  show ?thesis
    using C5_validation_fails_fast [where s = initial_state and run = run_saved and message = "''Network Error''"]
      C5_validation_fails_fast [where s = MyClip_state and run = run_rejected and message = "''Network Error''"]
      u r MyClip_valid
    by (simp add: MyClip_url MyClip_effects MyClip_title)
qed

section \<open>Empty files\<close>

text \<open>
  C6. A download whose response has size 0 ends in the error \<^verbatim>\<open>Received empty file\<close>,
  stored and pushed as a toast, and hands no file to the browser. Whatever the run and
  the state, every file that the handler hands to the browser has a size above 0.
\<close>

theorem C6_empty_file_rejected:
  "(\<not> invalid s \<and> download_outcome run = Resolved response \<and> data_size response = 0 \<longrightarrow>
      error (handleDownload run s) = ''Error downloading video: Received empty file'' \<and>
      effects (handleDownload run s) =
        effects s @ [Post (DownloadRequest (url s) (videoInfo_title s)),
                     ToastError ''Error downloading video: Received empty file'']) \<and>
   (SaveFile name n \<in> set (drop (length (effects s)) (effects (handleDownload run s))) \<longrightarrow>
      0 < n)"
proof (intro conjI impI)
  assume a: "\<not> invalid s \<and> download_outcome run = Resolved response \<and> data_size response = 0"
  then show "error (handleDownload run s) = ''Error downloading video: Received empty file''"
    by (simp add: handleDownload_valid settle_empty)
  from a show "effects (handleDownload run s) =
        effects s @ [Post (DownloadRequest (url s) (videoInfo_title s)),
                     ToastError ''Error downloading video: Received empty file'']"
    by (simp add: handleDownload_valid settle_empty effects_while_streaming)
next
  assume a: "SaveFile name n \<in> set (drop (length (effects s)) (effects (handleDownload run s)))"
  show "0 < n"
  proof (cases "invalid s")
    case True
    then have "effects (handleDownload run s) =
        effects s @ [ToastError ''URL and video title are required'']"
      by (simp add: handleDownload_def handleDownload_begin_def reject_download_def)
    with a show ?thesis by simp
  next
    case False
    let ?mid = "streaming (number_text run) (progress_events run)
                  (post_download (url s) (videoInfo_title s) (reset_for_download s))"
    obtain new where new:
      "effects (handleDownload_settle (url s) (videoInfo_title s) (download_outcome run) ?mid) =
         effects ?mid @ new"
      "\<forall>name n. SaveFile name n \<in> set new \<longrightarrow> 0 < n"
      using settle_new_effects by blast
    from a new(1) have "SaveFile name n \<in> set new"
      by (simp add: handleDownload_valid [OF False] effects_while_streaming)
    with new(2) show ?thesis by blast
  qed
qed

theorem C6_empty_run_and_saved_run:
  "\<not> invalid MyClip_state \<and>
   download_outcome run_empty = Resolved \<lparr>content_disposition = None, data_size = 0\<rparr> \<and>
   data_size \<lparr>content_disposition = None, data_size = 0\<rparr> = 0 \<and>
   error (handleDownload run_empty MyClip_state) =
     ''Error downloading video: Received empty file'' \<and>
   effects (handleDownload run_empty MyClip_state) =
     [Post (DownloadRequest ''https://example.org/v'' (Some ''MyClip'')),
      ToastError ''Error downloading video: Received empty file''] \<and>
   SaveFile ''MyClip.mp4'' 1000000
     \<in> set (drop (length (effects MyClip_state)) (effects (handleDownload run_saved MyClip_state))) \<and>
   (0::nat) < 1000000"
proof -
  let ?e = "\<lparr>content_disposition = None, data_size = 0\<rparr>"
  let ?r = "\<lparr>content_disposition = None, data_size = 1000000\<rparr>"
  have o: "download_outcome run_empty = Resolved ?e" by (simp add: run_empty_def)
  have z: "data_size ?e = 0" by simp
  have "download_outcome run_saved = Resolved ?r" by (simp add: run_saved_def)
  then have "effects (handleDownload run_saved MyClip_state) =
     effects MyClip_state @ [Post (DownloadRequest (url MyClip_state) (Some ''MyClip'')),
                  SaveFile (''MyClip'' @ ''.mp4'') (data_size ?r),
                  Post (VideoInfoRequest (url MyClip_state)),
                  ToastSuccess ''Download completed successfully!'']"
    using saved_effects [OF MyClip_valid MyClip_title, of run_saved ?r] by simp
  then have m: "SaveFile ''MyClip.mp4'' 1000000
     \<in> set (drop (length (effects MyClip_state)) (effects (handleDownload run_saved MyClip_state)))"
    by simp
  show ?thesis
    using C6_empty_file_rejected [where s = MyClip_state and run = run_empty and response = ?e
        and name = "''MyClip.mp4''" and n = 1000000]
      C6_empty_file_rejected [where s = MyClip_state and run = run_saved and response = ?e
        and name = "''MyClip.mp4''" and n = 1000000]
      MyClip_valid o z m
    by (simp add: MyClip_url MyClip_effects MyClip_title)
qed

section \<open>Progress and the estimate\<close>

text \<open>
  C1, at the input where it fails. A progress event whose total is undefined or 0 makes
  the callback divide by zero all the same (line 71 has no test of \<^verbatim>\<open>total\<close>; the test of
  line 76 guards the estimate only), and the quotient is stored as the progress:
  \<^verbatim>\<open>Infinity\<close> when bytes have been loaded, \<^verbatim>\<open>NaN\<close> when none has.
\<close>

theorem C1_percent_divides_by_zero:
  "progress (onDownloadProgress other clk \<lparr>loaded = 1000, total = None, startTime = None\<rparr> s)
     = PInf \<and>
   progress (onDownloadProgress other clk \<lparr>loaded = 0, total = Some 0, startTime = None\<rparr> s)
     = NaN"
  by (simp add: onDownloadProgress_def Let_def num_def)

text \<open>
  The part of C1 that the code keeps: with a total above 0 and no more bytes loaded than
  the total, the stored progress is a whole number from 0 to 100. (Rounding keeps the
  bounds: a rounded quotient of \<open>loaded \<le> total\<close> is at most 1, and its rounded product with
  100 at most 100. Which whole number it is may differ by rounding, and is not stated.)
\<close>

lemma percent_in_range:
  assumes "total ev = Some t" "0 < t" "loaded ev \<le> t"
  shows "\<exists>p. progress (onDownloadProgress other clk ev s) = Fin (of_int p) \<and> 0 \<le> p \<and> p \<le> 100"
proof -
  let ?q = "real (loaded ev) / real t * 100"
  have "0 \<le> ?q" by simp
  moreover have "?q \<le> 100" using assms(2,3) by (simp add: divide_le_eq)
  ultimately have "0 \<le> \<lfloor>?q\<rfloor>" "\<lfloor>?q\<rfloor> \<le> 100"
    by (simp_all add: floor_le_iff le_floor_iff)
  moreover have "progress (onDownloadProgress other clk ev s) = Fin (of_int \<lfloor>?q\<rfloor>)"
    using assms(1,2) by (simp add: onDownloadProgress_def Let_def num_def)
  ultimately show ?thesis by blast
qed

text \<open>
  The scenario of the specification: a million bytes in four chunks of a quarter each
  show 25, 50, 75 and 100 percent. (The four quotients and their products with 100 are
  binary64 values, so nothing is rounded.)
\<close>

lemma four_chunks_percent:
  "map (\<lambda>k. progress (streaming plain (take k four_chunks) s)) [1, 2, 3, 4] =
     [Fin 25, Fin 50, Fin 75, Fin 100]"
  by (simp add: four_chunks_def streaming_def onDownloadProgress_def Let_def num_def)


text \<open>
  The part of C7 about an unknown total, which the code keeps: for an event whose total is
  undefined or 0 no estimate is stored, and the estimate stays what it was.
\<close>

lemma no_estimate_without_total:
  assumes "total ev = None \<or> total ev = Some 0"
  shows "estimatedTime (onDownloadProgress other clk ev s) = estimatedTime s"
  using assms by (auto simp add: onDownloadProgress_def Let_def)

section \<open>Stale metadata\<close>

text \<open>
  What the download itself does: past the guard, the request is posted from a state whose
  metadata is absent, and no progress event of the transfer brings metadata back.
\<close>

lemma metadata_cleared_by_download:
  assumes "\<not> invalid s"
  shows "videoInfo (handleDownload_begin s) = None \<and>
         effects (handleDownload_begin s) =
           effects s @ [Post (DownloadRequest (url s) (videoInfo_title s))] \<and>
         videoInfo (streaming other evs (handleDownload_begin s)) = None"
proof -
  have b: "handleDownload_begin s =
             post_download (url s) (videoInfo_title s) (reset_for_download s)"
    using assms by (simp add: handleDownload_begin_def)
  have "videoInfo (streaming other evs (handleDownload_begin s)) =
          videoInfo (handleDownload_begin s)"
    using streaming_frame by blast
  then show ?thesis
    using b by (simp add: post_download_def reset_for_download_def)
qed

text \<open>
  C8, at the run where it fails. Line 57 clears the metadata
  (\<^verbatim>\<open>// Clear video info to avoid showing stale info during download\<close>), but the
  continuation of an earlier metadata fetch can still run during the transfer, and it
  stores what it awaited. With the response for the first url still awaited and the one
  for the second arrived, the button is enabled; the click clears the metadata and posts
  the download for the second url; then the response for the first url arrives and its
  metadata is stored, and stays through the progress events of the transfer.
\<close>

theorem C8_stale_metadata_during_transfer:
  "loading b_answered = False \<and>
   videoInfo b_answered = Some [(''title'', ''B'')] \<and>
   videoInfo (handleDownload_begin b_answered) = None \<and>
   effects (handleDownload_begin b_answered) =
     [Post (VideoInfoRequest ''https://example.org/a''),
      Post (VideoInfoRequest ''https://example.org/b''),
      Post (DownloadRequest ''https://example.org/b'' (Some ''B''))] \<and>
   videoInfo (fetchVideoInfo_settle (Resolved [(''title'', ''A'')])
      (handleDownload_begin b_answered)) = Some [(''title'', ''A'')] \<and>
   videoInfo (streaming plain four_chunks
      (fetchVideoInfo_settle (Resolved [(''title'', ''A'')])
         (handleDownload_begin b_answered))) = Some [(''title'', ''A'')]"
proof -
  have s: "b_answered =
      \<lparr>url = ''https://example.org/b'', error = [], loading = False,
       videoInfo = Some [(''title'', ''B'')], progress = Fin 0, estimatedTime = None,
       effects = [Post (VideoInfoRequest ''https://example.org/a''),
                  Post (VideoInfoRequest ''https://example.org/b'')]\<rparr>"
    by (simp add: b_answered_def fetchVideoInfo_settle_def Let_def onChange_def
        fetchVideoInfo_begin_def initial_state_def truthy_def field_def)
  have b: "handleDownload_begin b_answered =
      \<lparr>url = ''https://example.org/b'', error = [], loading = True,
       videoInfo = None, progress = Fin 0, estimatedTime = None,
       effects = [Post (VideoInfoRequest ''https://example.org/a''),
                  Post (VideoInfoRequest ''https://example.org/b''),
                  Post (DownloadRequest ''https://example.org/b'' (Some ''B''))]\<rparr>"
    unfolding s
    by (simp add: handleDownload_begin_def invalid_def videoInfo_title_def field_def
        truthy_def post_download_def reset_for_download_def)
  have a: "videoInfo (fetchVideoInfo_settle (Resolved [(''title'', ''A'')])
      (handleDownload_begin b_answered)) = Some [(''title'', ''A'')]"
    by (simp add: fetchVideoInfo_settle_def Let_def truthy_def field_def)
  have "videoInfo (streaming plain four_chunks
      (fetchVideoInfo_settle (Resolved [(''title'', ''A'')])
         (handleDownload_begin b_answered))) =
    videoInfo (fetchVideoInfo_settle (Resolved [(''title'', ''A'')])
      (handleDownload_begin b_answered))"
    using streaming_frame by blast
  then show ?thesis
    using a by (simp add: b) (simp add: s)
qed

section \<open>Clear\<close>

text \<open>
  C9, as the code has it. Clear resets the url, the metadata, the error, the progress and
  the estimate to their initial values. It has no \<^verbatim>\<open>setLoading\<close>: the loading flag is
  what it was, and nothing is posted or shown.
\<close>

theorem C9_clear_resets_five_fields:
  "url (handleClear s) = url initial_state \<and>
   videoInfo (handleClear s) = videoInfo initial_state \<and>
   error (handleClear s) = error initial_state \<and>
   progress (handleClear s) = progress initial_state \<and>
   estimatedTime (handleClear s) = estimatedTime initial_state \<and>
   loading (handleClear s) = loading s \<and>
   effects (handleClear s) = effects s"
  by (simp add: handleClear_def initial_state_def)

text \<open>
  C9 as stated fails: after a url has been typed the fetch is loading, and Clear leaves
  the flag set, while its initial value is false.
\<close>

theorem C9_clear_keeps_loading:
  "loading (handleClear (onChange ''https://example.org/v'' initial_state)) = True \<and>
   loading initial_state = False"
  by (simp add: handleClear_def onChange_def fetchVideoInfo_begin_def initial_state_def)

section \<open>The loading flag\<close>

text \<open>
  C10. The continuation of the metadata fetch ends with the flag false, whatever the
  outcome and whatever state it runs on, and so does the continuation of the download.
  The download's guard returns before the flag is touched; the handler runs only on a
  click, which the button passes on only while the flag is false, and then the guard
  leaves it false. So every run of the fetch, every download that passes the guard and
  every click on the button end with the flag false.
\<close>

theorem C10_loading_false_on_termination:
  "loading (fetchVideoInfo_settle outcome s) = False \<and>
   loading (fetchVideoInfo u outcome s) = False \<and>
   loading (handleDownload_settle u title outcome' s) = False \<and>
   (\<not> invalid s \<longrightarrow> loading (handleDownload run s) = False) \<and>
   (\<not> loading s \<longrightarrow> loading (onClick_download run s) = False)"
proof (intro conjI impI)
  show "loading (fetchVideoInfo_settle outcome s) = False"
    by (simp add: fetchVideoInfo_settle_def Let_def)
next
  show "loading (fetchVideoInfo u outcome s) = False"
    by (simp add: fetchVideoInfo_def fetchVideoInfo_settle_def Let_def)
next
  show "loading (handleDownload_settle u title outcome' s) = False"
    by (rule settle_not_loading)
next
  assume "\<not> invalid s"
  then show "loading (handleDownload run s) = False"
    by (simp add: handleDownload_valid settle_not_loading)
next
  assume n: "\<not> loading s"
  show "loading (onClick_download run s) = False"
  proof (cases "invalid s")
    case True
    then show ?thesis
      using n
      by (simp add: onClick_download_def handleDownload_def handleDownload_begin_def
          reject_download_def)
  next
    case False
    then show ?thesis
      using n by (simp add: onClick_download_def handleDownload_valid settle_not_loading)
  qed
qed

text \<open>
  Instances: a rejected fetch, a rejected download of \<^verbatim>\<open>MyClip\<close>, and a click with no url.
\<close>

theorem C10_flag_false_after_each_run:
  "loading (fetchVideoInfo ''https://example.org/v'' (Rejected ''Network Error'') initial_state)
     = False \<and>
   \<not> invalid MyClip_state \<and> loading (handleDownload run_rejected MyClip_state) = False \<and>
   \<not> loading initial_state \<and> loading (onClick_download run_saved initial_state) = False"
proof -
  have "\<not> loading initial_state" by (simp add: initial_state_def)
  then show ?thesis
    using C10_loading_false_on_termination [where u = "''https://example.org/v''"
        and outcome = "Rejected ''Network Error''" and s = initial_state and run = run_saved]
      C10_loading_false_on_termination [where u = "''https://example.org/v''"
        and outcome = "Rejected ''Network Error''" and s = MyClip_state and run = run_rejected]
      MyClip_valid
    by simp
qed

section \<open>Responses that arrive out of order\<close>

text \<open>
  C3, as the code has it. The continuation of a fetch stores the metadata of its response
  whatever the url now is: when fetches are begun for A and then for B, and the response
  for A arrives after the one for B and carries no error, the metadata is that of A,
  while the url is B. The last response to arrive wins.
\<close>

theorem C3_last_response_wins:
  assumes "A \<noteq> []" "A \<noteq> url s" "B \<noteq> []" "B \<noteq> A"
    and "\<not> truthy (field dataA ''error'')"
  shows "effects (onChange B (onChange A s)) =
           effects s @ [Post (VideoInfoRequest A), Post (VideoInfoRequest B)] \<and>
         videoInfo (fetchVideoInfo_settle (Resolved dataA)
            (fetchVideoInfo_settle outcomeB (onChange B (onChange A s)))) = Some dataA \<and>
         url (fetchVideoInfo_settle (Resolved dataA)
            (fetchVideoInfo_settle outcomeB (onChange B (onChange A s)))) = B"
proof -
  have u: "url (fetchVideoInfo_settle outcome t) = url t" for outcome t
    by (cases outcome)
      (simp_all add: fetchVideoInfo_settle_def Let_def fetchVideoInfo_catch_def)
  have b: "url (onChange B t) = B" for t
    by (simp add: onChange_def fetchVideoInfo_begin_def)
  have "effects (onChange B (onChange A s)) =
          effects s @ [Post (VideoInfoRequest A), Post (VideoInfoRequest B)]"
    using assms(1-4) by (simp add: onChange_def fetchVideoInfo_begin_def)
  then show ?thesis
    using assms(5) u b by (simp add: fetchVideoInfo_settle_def Let_def)
qed

theorem C3_response_for_A_after_B:
  "''https://example.org/a'' \<noteq> [] \<and> ''https://example.org/a'' \<noteq> url initial_state \<and>
   ''https://example.org/b'' \<noteq> [] \<and> ''https://example.org/b'' \<noteq> ''https://example.org/a'' \<and>
   \<not> truthy (field [(''title'', ''A'')] ''error'') \<and>
   effects (onChange ''https://example.org/b'' (onChange ''https://example.org/a'' initial_state)) =
     [Post (VideoInfoRequest ''https://example.org/a''),
      Post (VideoInfoRequest ''https://example.org/b'')] \<and>
   videoInfo (fetchVideoInfo_settle (Resolved [(''title'', ''A'')])
      (fetchVideoInfo_settle (Resolved [(''title'', ''B'')])
         (onChange ''https://example.org/b'' (onChange ''https://example.org/a'' initial_state))))
     = Some [(''title'', ''A'')] \<and>
   url (fetchVideoInfo_settle (Resolved [(''title'', ''A'')])
      (fetchVideoInfo_settle (Resolved [(''title'', ''B'')])
         (onChange ''https://example.org/b'' (onChange ''https://example.org/a'' initial_state))))
     = ''https://example.org/b''"
proof -
  have a: "''https://example.org/a'' \<noteq> []"
    and a': "''https://example.org/a'' \<noteq> url initial_state"
    and b: "''https://example.org/b'' \<noteq> []"
    and b': "''https://example.org/b'' \<noteq> ''https://example.org/a''"
    by (simp_all add: initial_state_def)
  have e: "\<not> truthy (field [(''title'', ''A'')] ''error'')"
    by (simp add: truthy_def field_def)
  have i: "effects initial_state = []" by (simp add: initial_state_def)
  show ?thesis
    using C3_last_response_wins [OF a a' b b' e, of "Resolved [(''title'', ''B'')]"]
      a a' b b' e
    unfolding i append_Nil
    by blast
qed

text \<open>
  C3 as stated fails: with the fetch for \<^verbatim>\<open>a\<close> begun before the fetch for \<^verbatim>\<open>b\<close> and its
  response arriving after, the url is \<^verbatim>\<open>b\<close> and the metadata is not the result for
  \<^verbatim>\<open>b\<close> but the one for \<^verbatim>\<open>a\<close>.
\<close>

theorem C3_stale_response_overwrites:
  "url (fetchVideoInfo_settle (Resolved [(''title'', ''A'')])
      (fetchVideoInfo_settle (Resolved [(''title'', ''B'')])
         (onChange ''b'' (onChange ''a'' initial_state)))) = ''b'' \<and>
   effects (onChange ''b'' (onChange ''a'' initial_state)) =
     [Post (VideoInfoRequest ''a''), Post (VideoInfoRequest ''b'')] \<and>
   videoInfo (fetchVideoInfo_settle (Resolved [(''title'', ''B'')])
         (onChange ''b'' (onChange ''a'' initial_state))) = Some [(''title'', ''B'')] \<and>
   videoInfo (fetchVideoInfo_settle (Resolved [(''title'', ''A'')])
      (fetchVideoInfo_settle (Resolved [(''title'', ''B'')])
         (onChange ''b'' (onChange ''a'' initial_state)))) = Some [(''title'', ''A'')] \<and>
   Some [(''title'', ''A'')] \<noteq> Some [(''title'', ''B'')]"
  by (simp add: fetchVideoInfo_settle_def Let_def onChange_def fetchVideoInfo_begin_def
      initial_state_def truthy_def field_def)

end
